theory Spec2Isabelle
  imports Complex_Main "HOL-Library.Monad_Syntax"
begin

section \<open>Elo ranking system: Player, Match and RankingSystem\<close>

text \<open>
  Modelling conventions.
  \<^item> A C++ \<open>double\<close> is a \<open>real\<close>. The Elo formula is given twice: with exact real
    arithmetic, \<open>pow(10.0, e)\<close> being \<open>10 powr e\<close>, and, in the definitions named
    \<open>_double\<close>, with the result of every operation rounded to binary64. Infinities, NaN
    and the sign of zero are outside the model.
  \<^item> A C++ \<open>int\<close> is an \<open>int\<close>. Signed overflow is undefined in C++; a counter would need
    \<open>2^31\<close> recorded games to reach it, and the model covers the executions below that.
  \<^item> A \<open>Player&\<close> or \<open>Player*\<close> is a position in a store of players, a \<open>Player list\<close>;
    calling a mutating member function through it updates the store at that position.
  \<^item> A file is its text; opening it may fail. The stream operations of the C++ library
    are modelled on strings: those for \<open>int\<close> in full, those for \<open>double\<close> as
    parameters, since the text of a \<open>double\<close> is a matter of floating point.
\<close>

subsection \<open>Player (Player.h, Player.cpp)\<close>

record Player =
  name :: string
  rating :: real
  gamesPlayed :: int
  wins :: int
  losses :: int
  draws :: int

text \<open>The constructor \<open>Player::Player(name, rating)\<close>: counters start at 0, a negative
  rating is replaced by 0.\<close>

definition newPlayer :: "string \<Rightarrow> real \<Rightarrow> Player" where
  "newPlayer n r =
     (let this = \<lparr>name = n, rating = r, gamesPlayed = 0, wins = 0, losses = 0, draws = 0\<rparr>
      in if rating this < 0 then this\<lparr>rating := 0\<rparr> else this)"

definition getName :: "Player \<Rightarrow> string" where
  "getName p = name p"

definition getRating :: "Player \<Rightarrow> real" where
  "getRating p = rating p"

definition getGamesPlayed :: "Player \<Rightarrow> int" where
  "getGamesPlayed p = gamesPlayed p"

definition getWins :: "Player \<Rightarrow> int" where
  "getWins p = wins p"

definition getLosses :: "Player \<Rightarrow> int" where
  "getLosses p = losses p"

definition getDraws :: "Player \<Rightarrow> int" where
  "getDraws p = draws p"

definition updateRating :: "real \<Rightarrow> Player \<Rightarrow> Player" where
  "updateRating newRating p = p\<lparr>rating := newRating\<rparr>"

definition recordWin :: "Player \<Rightarrow> Player" where
  "recordWin p = (let p1 = p\<lparr>wins := wins p + 1\<rparr> in p1\<lparr>gamesPlayed := gamesPlayed p1 + 1\<rparr>)"

definition recordLoss :: "Player \<Rightarrow> Player" where
  "recordLoss p = (let p1 = p\<lparr>losses := losses p + 1\<rparr> in p1\<lparr>gamesPlayed := gamesPlayed p1 + 1\<rparr>)"

definition recordDraw :: "Player \<Rightarrow> Player" where
  "recordDraw p = (let p1 = p\<lparr>draws := draws p + 1\<rparr> in p1\<lparr>gamesPlayed := gamesPlayed p1 + 1\<rparr>)"

text \<open>The four mutating operations of a Player, and a sequence of calls on one player.\<close>

datatype PlayerOp = RecordWin | RecordLoss | RecordDraw | UpdateRating real

fun applyOp :: "PlayerOp \<Rightarrow> Player \<Rightarrow> Player" where
  "applyOp RecordWin p = recordWin p"
| "applyOp RecordLoss p = recordLoss p"
| "applyOp RecordDraw p = recordDraw p"
| "applyOp (UpdateRating v) p = updateRating v p"

fun applyOps :: "PlayerOp list \<Rightarrow> Player \<Rightarrow> Player" where
  "applyOps [] p = p"
| "applyOps (x # xs) p = applyOps xs (applyOp x p)"

subsection \<open>Match (Match.h, Match.cpp)\<close>

definition calculateExpectedScore :: "real \<Rightarrow> real \<Rightarrow> real" where
  "calculateExpectedScore ratingA ratingB =
     (let exponent = (ratingB - ratingA) / 400;
          powerOfTen = 10 powr exponent;
          expectedScore = 1 / (1 + powerOfTen)
      in expectedScore)"

text \<open>
  A Match holds two references to players, the result from player1's side (1, 0 or -1)
  and the K-factor. The references are positions in the store the players live in.
\<close>

record Match =
  player1 :: nat
  player2 :: nat
  result :: int
  kFactor :: real

text \<open>The constructor \<open>Match::Match(p1, p2, result, kFactor = 32.0)\<close> only binds its arguments.\<close>

definition newMatch :: "nat \<Rightarrow> nat \<Rightarrow> int \<Rightarrow> real \<Rightarrow> Match" where
  "newMatch p1 p2 res k = \<lparr>player1 = p1, player2 = p2, result = res, kFactor = k\<rparr>"

text \<open>Calling the mutating member function \<open>f\<close> on the player a reference designates.\<close>

definition invoke :: "nat \<Rightarrow> (Player \<Rightarrow> Player) \<Rightarrow> Player list \<Rightarrow> Player list" where
  "invoke ref f store = store[ref := f (store ! ref)]"

text \<open>
  \<open>Match::processMatch\<close>, statement by statement: both ratings are read first, the record
  operations run through player1 and then player2, and the two \<open>updateRating\<close> calls come
  last, player1's before player2's. Any result other than 1 and -1 takes the draw branch.
\<close>

definition processMatch :: "Match \<Rightarrow> Player list \<Rightarrow> Player list" where
  "processMatch m store =
     (let rating1 = getRating (store ! player1 m);
          rating2 = getRating (store ! player2 m);
          expected1 = calculateExpectedScore rating1 rating2;
          expected2 = calculateExpectedScore rating2 rating1;
          (actual1, actual2, store1) =
            (if result m = 1 then
               (1, 0, invoke (player2 m) recordLoss (invoke (player1 m) recordWin store))
             else if result m = - 1 then
               (0, 1, invoke (player2 m) recordWin (invoke (player1 m) recordLoss store))
             else
               (1 / 2, 1 / 2, invoke (player2 m) recordDraw (invoke (player1 m) recordDraw store)));
          newRating1 = rating1 + kFactor m * (actual1 - expected1);
          newRating2 = rating2 + kFactor m * (actual2 - expected2)
      in invoke (player2 m) (updateRating newRating2)
           (invoke (player1 m) (updateRating newRating1) store1))"

subsection \<open>Double arithmetic (Match.cpp)\<close>

text \<open>
  The same statements of Match.cpp with every operation on a \<open>double\<close> rounded as IEEE 754
  binary64 rounds in its default mode: to the nearest number with a significand of 53 bits,
  and of two equally near ones to the one with an even significand. Numbers below the normal
  range keep the spacing \<open>2^-1074\<close>; overflow to infinity is left out. \<open>pow\<close> is the C
  library's; the model takes the correctly rounded power.
\<close>

definition two_to :: "int \<Rightarrow> real" where
  "two_to e = (if 0 \<le> e then 2 ^ nat e else 1 / 2 ^ nat (- e))"

definition nearest_even :: "real \<Rightarrow> int" where
  "nearest_even x =
     (let f = \<lfloor>x\<rfloor>
      in if x - of_int f < 1 / 2 then f
         else if 1 / 2 < x - of_int f then f + 1
         else if even f then f else f + 1)"

definition round64 :: "real \<Rightarrow> real" where
  "round64 x =
     (if x = 0 then 0
      else let e = max (\<lfloor>log 2 \<bar>x\<bar>\<rfloor> - 52) (- 1074)
           in of_int (nearest_even (x / two_to e)) * two_to e)"





subsection \<open>RankingSystem (RankingSystem.h, RankingSystem.cpp)\<close>

text \<open>
  The class has one member, the vector \<open>players\<close> of owned players, in insertion order; a
  RankingSystem is that list. What a member function prints is returned as a message.
\<close>

type_synonym RankingSystem = "Player list"

datatype message =
    AlreadyExists string
  | AddedSuccessfully string
  | NotFound string
  | MatchRecorded
  | ErrorOpeningFile
  | DataSaved
  | NoDataFile
  | Loaded nat

text \<open>\<open>findPlayer\<close>: the position of the first player with that name, \<open>None\<close> for
  \<open>nullptr\<close>.\<close>

fun findPlayer :: "RankingSystem \<Rightarrow> string \<Rightarrow> nat option" where
  "findPlayer [] n = None"
| "findPlayer (player # rest) n =
     (if getName player = n then Some 0 else map_option Suc (findPlayer rest n))"

definition addPlayer :: "string \<Rightarrow> real \<Rightarrow> RankingSystem \<Rightarrow> message \<times> RankingSystem" where
  "addPlayer n initialRating players =
     (if findPlayer players n \<noteq> None then (AlreadyExists n, players)
      else (AddedSuccessfully n, players @ [newPlayer n initialRating]))"

text \<open>\<open>recordMatch\<close> takes no K-factor: the Match is built with the default 32.\<close>

definition recordMatch :: "string \<Rightarrow> string \<Rightarrow> int \<Rightarrow> RankingSystem \<Rightarrow> message \<times> RankingSystem" where
  "recordMatch name1 name2 res players =
     (let p1 = findPlayer players name1;
          p2 = findPlayer players name2
      in case p1 of
           None \<Rightarrow> (NotFound name1, players)
         | Some r1 \<Rightarrow>
             (case p2 of
                None \<Rightarrow> (NotFound name2, players)
              | Some r2 \<Rightarrow> (MatchRecorded, processMatch (newMatch r1 r2 res 32) players)))"

definition getPlayerCount :: "RankingSystem \<Rightarrow> nat" where
  "getPlayerCount players = length players"

definition getAllPlayerNames :: "RankingSystem \<Rightarrow> string list" where
  "getAllPlayerNames players = map getName players"

subsection \<open>Persistence (RankingSystem.cpp)\<close>

text \<open>
  The stream operations. \<open>put_int\<close> is \<open>operator<<\<close> for an \<open>int\<close>: decimal digits, a
  minus sign for a negative value. \<open>get_int\<close> is \<open>operator>>\<close>: it skips white space,
  takes an optional sign and the digits that follow, and returns the value with the rest of
  the stream; it fails with no digit at that place or a value outside the range of an
  \<open>int\<close>.
\<close>

definition newline :: char where
  "newline = CHR 0x0A"

definition comma :: char where
  "comma = CHR '',''"

definition is_digit :: "char \<Rightarrow> bool" where
  "is_digit c = (48 \<le> (of_char c :: nat) \<and> (of_char c :: nat) \<le> 57)"

definition is_space :: "char \<Rightarrow> bool" where
  "is_space c = ((of_char c :: nat) = 32 \<or> (9 \<le> (of_char c :: nat) \<and> (of_char c :: nat) \<le> 13))"

definition digit_char :: "nat \<Rightarrow> char" where
  "digit_char d = char_of (48 + d)"

definition digit_val :: "char \<Rightarrow> nat" where
  "digit_val c = of_char c - 48"

function put_nat :: "nat \<Rightarrow> string" where
  "put_nat n = (if n < 10 then [digit_char n] else put_nat (n div 10) @ [digit_char (n mod 10)])"
  by pat_completeness auto
termination
  by (relation "measure id") auto

declare put_nat.simps [simp del]

definition put_int :: "int \<Rightarrow> string" where
  "put_int i = (if i < 0 then CHR ''-'' # put_nat (nat (- i)) else put_nat (nat i))"

definition digits_value :: "string \<Rightarrow> nat" where
  "digits_value ds = foldl (\<lambda>a c. 10 * a + digit_val c) 0 ds"

definition get_nat :: "string \<Rightarrow> (nat \<times> string) option" where
  "get_nat s =
     (let ds = takeWhile is_digit s
      in if ds = [] then None else Some (digits_value ds, dropWhile is_digit s))"

definition in_int_range :: "int \<Rightarrow> bool" where
  "in_int_range v = (- 2147483648 \<le> v \<and> v \<le> 2147483647)"

definition get_int :: "string \<Rightarrow> (int \<times> string) option" where
  "get_int s =
     (case dropWhile is_space s of
        [] \<Rightarrow> None
      | c # cs \<Rightarrow>
          do {
            (v, rest) \<leftarrow>
              (if c = CHR ''-'' then map_option (\<lambda>(n, r). (- int n, r)) (get_nat cs)
               else if c = CHR ''+'' then map_option (\<lambda>(n, r). (int n, r)) (get_nat cs)
               else map_option (\<lambda>(n, r). (int n, r)) (get_nat (c # cs)));
            if in_int_range v then Some (v, rest) else None
          })"

text \<open>
  The conversions of a \<open>double\<close> restricted to whole numbers, for the examples: on a whole
  number of at most six digits \<open>operator<<\<close> writes the digits of the integer, and
  \<open>operator>>\<close> reads them back.
\<close>

definition put_whole :: "real \<Rightarrow> string" where
  "put_whole r = put_int \<lfloor>r\<rfloor>"

definition get_whole :: "string \<Rightarrow> (real \<times> string) option" where
  "get_whole s = map_option (\<lambda>(v, rest). (real_of_int v, rest)) (get_int s)"

text \<open>
  \<open>saveToFile\<close>. \<open>put_double\<close> stands for \<open>operator<<\<close> on a \<open>double\<close>; \<open>opened\<close> tells
  whether the file could be opened for writing. The result is the message and the text
  written, \<open>None\<close> when nothing was written.
\<close>

definition playerLine :: "(real \<Rightarrow> string) \<Rightarrow> Player \<Rightarrow> string" where
  "playerLine put_double player =
     getName player @ [comma] @ put_double (getRating player) @ [comma]
       @ put_int (getGamesPlayed player) @ [comma] @ put_int (getWins player) @ [comma]
       @ put_int (getLosses player) @ [comma] @ put_int (getDraws player) @ [newline]"

definition saveToFile ::
    "(real \<Rightarrow> string) \<Rightarrow> bool \<Rightarrow> RankingSystem \<Rightarrow> message \<times> string option" where
  "saveToFile put_double opened players =
     (if \<not> opened then (ErrorOpeningFile, None)
      else (DataSaved, Some (concat (map (playerLine put_double) players))))"

text \<open>
  The loop \<open>while (std::getline(file, line))\<close>: the lines of the text, each ended by a
  newline, and a last one without newline when it is not empty. \<open>line\<close> holds the characters
  of the line read so far.
\<close>

fun getlines :: "string \<Rightarrow> string \<Rightarrow> string list" where
  "getlines line [] = (if line = [] then [] else [line])"
| "getlines line (c # cs) =
     (if c = newline then line # getlines [] cs else getlines (line @ [c]) cs)"

text \<open>
  The body of the loop on one line. \<open>std::getline(ss, name, ',')\<close> takes the characters
  before the first comma and drops the comma, each \<open>ss.ignore()\<close> drops one character, and
  \<open>get_double\<close> stands for \<open>operator>>\<close> on a \<open>double\<close>. The games field is read and not
  used. Each \<open>for\<close> loop calls its record operation \<open>wins\<close>, \<open>losses\<close>, \<open>draws\<close> times,
  not at all for a value below 1. The result is \<open>None\<close> when one of the five extractions
  fails; what the source does then, going on with variables that the extractions left
  unassigned, is undefined in C++ and outside the model.
\<close>

definition parseLine :: "(string \<Rightarrow> (real \<times> string) option) \<Rightarrow> string \<Rightarrow> Player option" where
  "parseLine get_double line =
     (let name = takeWhile (\<lambda>c. c \<noteq> comma) line;
          ss = drop 1 (dropWhile (\<lambda>c. c \<noteq> comma) line)
      in do {
           (rating, ss) \<leftarrow> get_double ss;
           (games, ss) \<leftarrow> get_int (drop 1 ss);
           (wins, ss) \<leftarrow> get_int (drop 1 ss);
           (losses, ss) \<leftarrow> get_int (drop 1 ss);
           (draws, ss) \<leftarrow> get_int (drop 1 ss);
           Some ((recordDraw ^^ nat draws) ((recordLoss ^^ nat losses)
                   ((recordWin ^^ nat wins) (newPlayer name rating))))
         })"

datatype fault = UnreadableLine string

fun loadLines ::
    "(string \<Rightarrow> (real \<times> string) option) \<Rightarrow> string list \<Rightarrow> RankingSystem \<Rightarrow> fault + RankingSystem"
  where
  "loadLines get_double [] players = Inr players"
| "loadLines get_double (line # rest) players =
     (case parseLine get_double line of
        None \<Rightarrow> Inl (UnreadableLine line)
      | Some player \<Rightarrow> loadLines get_double rest (players @ [player]))"

text \<open>
  \<open>loadFromFile\<close>. \<open>file\<close> is the text of the file, \<open>None\<close> when it cannot be opened; the
  function then returns before it touches the players. Otherwise the players are cleared and
  the lines are loaded in order.
\<close>

definition loadFromFile ::
    "(string \<Rightarrow> (real \<times> string) option) \<Rightarrow> string option \<Rightarrow> RankingSystem
      \<Rightarrow> fault + message \<times> RankingSystem" where
  "loadFromFile get_double file players =
     (case file of
        None \<Rightarrow> Inr (NoDataFile, players)
      | Some content \<Rightarrow>
          (case loadLines get_double (getlines [] content) [] of
             Inl f \<Rightarrow> Inl f
           | Inr loaded \<Rightarrow> Inr (Loaded (length loaded), loaded)))"

text \<open>
  The counters every player of a RankingSystem has: none is negative, and the games played
  are the sum of the other three.
\<close>

definition counters_ok :: "Player \<Rightarrow> bool" where
  "counters_ok p =
     (0 \<le> wins p \<and> 0 \<le> losses p \<and> 0 \<le> draws p
      \<and> gamesPlayed p = wins p + losses p + draws p)"

text \<open>
  The players that a file can hold: the name has no comma and no newline, the rating is not
  negative and its text has no newline and reads back as the same rating, and the counters
  are those of a RankingSystem and in the range of an \<open>int\<close>.
\<close>

definition reloadable ::
    "(real \<Rightarrow> string) \<Rightarrow> (string \<Rightarrow> (real \<times> string) option) \<Rightarrow> Player \<Rightarrow> bool" where
  "reloadable put_double get_double p =
     (comma \<notin> set (name p) \<and> newline \<notin> set (name p)
      \<and> 0 \<le> rating p
      \<and> newline \<notin> set (put_double (rating p))
      \<and> (\<forall>rest. get_double (put_double (rating p) @ comma # rest) = Some (rating p, comma # rest))
      \<and> counters_ok p \<and> gamesPlayed p \<le> 2147483647)"

section \<open>Properties\<close>

subsection \<open>Player\<close>

lemma newPlayer_simps:
  "name (newPlayer n r) = n"
  "rating (newPlayer n r) = (if r < 0 then 0 else r)"
  "gamesPlayed (newPlayer n r) = 0"
  "wins (newPlayer n r) = 0"
  "losses (newPlayer n r) = 0"
  "draws (newPlayer n r) = 0"
  by (simp_all add: newPlayer_def Let_def)

lemma applyOp_sum:
  "gamesPlayed p = wins p + losses p + draws p \<Longrightarrow>
   gamesPlayed (applyOp x p) = wins (applyOp x p) + losses (applyOp x p) + draws (applyOp x p)"
  by (cases x) (simp_all add: recordWin_def recordLoss_def recordDraw_def updateRating_def Let_def)

lemma applyOps_sum:
  "gamesPlayed p = wins p + losses p + draws p \<Longrightarrow>
   gamesPlayed (applyOps xs p) = wins (applyOps xs p) + losses (applyOps xs p) + draws (applyOps xs p)"
proof (induction xs arbitrary: p)
  case Nil
  then show ?case by simp
next
  case (Cons x xs)
  from Cons.prems have "gamesPlayed (applyOp x p) =
      wins (applyOp x p) + losses (applyOp x p) + draws (applyOp x p)"
    by (rule applyOp_sum)
  then show ?case using Cons.IH by simp
qed

text \<open>
  C4. Starting from construction, after every sequence of \<open>recordWin\<close>, \<open>recordLoss\<close>,
  \<open>recordDraw\<close> and \<open>updateRating\<close> calls the games played are the sum of wins, losses and
  draws. Each record operation adds one to its own outcome counter and to the games played
  and leaves the other two counters alone; \<open>updateRating\<close> changes no counter.
\<close>

theorem player_counter_invariant:
  "gamesPlayed (applyOps xs (newPlayer n r)) =
     wins (applyOps xs (newPlayer n r)) + losses (applyOps xs (newPlayer n r))
       + draws (applyOps xs (newPlayer n r))
   \<and> (gamesPlayed (recordWin p), wins (recordWin p), losses (recordWin p), draws (recordWin p))
       = (gamesPlayed p + 1, wins p + 1, losses p, draws p)
   \<and> (gamesPlayed (recordLoss p), wins (recordLoss p), losses (recordLoss p), draws (recordLoss p))
       = (gamesPlayed p + 1, wins p, losses p + 1, draws p)
   \<and> (gamesPlayed (recordDraw p), wins (recordDraw p), losses (recordDraw p), draws (recordDraw p))
       = (gamesPlayed p + 1, wins p, losses p, draws p + 1)
   \<and> (gamesPlayed (updateRating v p), wins (updateRating v p), losses (updateRating v p),
        draws (updateRating v p))
       = (gamesPlayed p, wins p, losses p, draws p)"
proof -
  have "gamesPlayed (newPlayer n r) = wins (newPlayer n r) + losses (newPlayer n r)
          + draws (newPlayer n r)"
    by (simp add: newPlayer_simps)
  then have "gamesPlayed (applyOps xs (newPlayer n r)) =
     wins (applyOps xs (newPlayer n r)) + losses (applyOps xs (newPlayer n r))
       + draws (applyOps xs (newPlayer n r))"
    by (rule applyOps_sum)
  then show ?thesis
    by (simp add: recordWin_def recordLoss_def recordDraw_def updateRating_def Let_def)
qed

text \<open>
  C6. A player constructed with a negative rating has rating 0 and all counters 0, while
  \<open>updateRating\<close> stores whatever it is given: a negative value passed after construction
  stays negative.
\<close>

theorem rating_floor_only_at_construction:
  "(r < 0 \<longrightarrow> rating (newPlayer n r) = 0)
   \<and> gamesPlayed (newPlayer n r) = 0 \<and> wins (newPlayer n r) = 0
   \<and> losses (newPlayer n r) = 0 \<and> draws (newPlayer n r) = 0
   \<and> updateRating v p = p\<lparr>rating := v\<rparr>
   \<and> rating (updateRating v (newPlayer n r)) = v"
  by (simp add: newPlayer_simps updateRating_def)

theorem rating_floor_only_at_construction_witness:
  "(- 100 :: real) < 0 \<and> rating (newPlayer ''X'' (- 100)) = 0
   \<and> rating (updateRating (- 5) (newPlayer ''X'' (- 100))) = - 5"
  using rating_floor_only_at_construction [of "- 100" "''X''" "- 5"] by simp

subsection \<open>Expected score\<close>

lemma calculateExpectedScore_alt:
  "calculateExpectedScore a b = 1 / (1 + 10 powr ((b - a) / 400))"
  by (simp add: calculateExpectedScore_def)


subsection \<open>Double arithmetic\<close>





lemma round64_0 [simp]: "round64 0 = 0"
  by (simp add: round64_def)






















subsection \<open>Match\<close>

lemma length_invoke [simp]: "length (invoke r f s) = length s"
  by (simp add: invoke_def)

lemma nth_invoke:
  "q < length s \<Longrightarrow> invoke r f s ! q = (if q = r then f (s ! q) else s ! q)"
  by (simp add: invoke_def)

lemma length_processMatch [simp]: "length (processMatch m s) = length s"
  by (simp add: processMatch_def Let_def split: prod.splits)

lemma processMatch_other:
  "q \<noteq> player1 m \<Longrightarrow> q \<noteq> player2 m \<Longrightarrow> q < length s \<Longrightarrow> processMatch m s ! q = s ! q"
  by (simp add: processMatch_def Let_def nth_invoke split: prod.splits)

lemma processMatch_player1:
  assumes "player1 m \<noteq> player2 m" "player1 m < length s" "player2 m < length s"
  shows "processMatch m s ! player1 m =
     updateRating (rating (s ! player1 m) + kFactor m *
        ((if result m = 1 then 1 else if result m = - 1 then 0 else 1 / 2)
          - calculateExpectedScore (rating (s ! player1 m)) (rating (s ! player2 m))))
       ((if result m = 1 then recordWin else if result m = - 1 then recordLoss else recordDraw)
          (s ! player1 m))"
  using assms by (simp add: processMatch_def Let_def nth_invoke getRating_def)

lemma processMatch_player2:
  assumes "player1 m \<noteq> player2 m" "player1 m < length s" "player2 m < length s"
  shows "processMatch m s ! player2 m =
     updateRating (rating (s ! player2 m) + kFactor m *
        ((if result m = 1 then 0 else if result m = - 1 then 1 else 1 / 2)
          - calculateExpectedScore (rating (s ! player2 m)) (rating (s ! player1 m))))
       ((if result m = 1 then recordLoss else if result m = - 1 then recordWin else recordDraw)
          (s ! player2 m))"
  using assms by (simp add: processMatch_def Let_def nth_invoke getRating_def)

lemma processMatch_same:
  assumes "player1 m = player2 m" "player2 m < length s"
  shows "processMatch m s ! player2 m =
     updateRating (rating (s ! player2 m) + kFactor m *
        ((if result m = 1 then 0 else if result m = - 1 then 1 else 1 / 2) - 1 / 2))
       ((if result m = 1 then recordLoss o recordWin else if result m = - 1 then recordWin o recordLoss else recordDraw o recordDraw)
          (s ! player2 m))"
  using assms by (simp add: processMatch_def Let_def nth_invoke getRating_def calculateExpectedScore_alt updateRating_def)

lemma findPlayer_Some:
  "findPlayer players n = Some i \<Longrightarrow> i < length players \<and> getName (players ! i) = n"
proof (induction players arbitrary: i)
  case Nil
  then show ?case by simp
next
  case (Cons p ps)
  show ?case
  proof (cases "getName p = n")
    case True
    with Cons.prems show ?thesis by simp
  next
    case False
    with Cons.prems obtain j where j: "findPlayer ps n = Some j" "i = Suc j"
      by auto
    with Cons.IH [of j] show ?thesis by simp
  qed
qed

text \<open>
  C1. \<open>processMatch\<close> invokes one record operation through each reference (a win and a
  loss for result 1, a loss and a win for result -1, a draw each for result 0) and then one
  \<open>updateRating\<close> through each reference with \<open>old + k * (actual - expected)\<close>, for
  the actual scores (1, 0), (0, 1) and (1/2, 1/2); both old ratings and both expected
  scores are those of the store before the call. For two players at different positions
  of the store, player1 therefore ends as the old player1 after its record operation and
  its \<open>updateRating\<close>, likewise player2, no other player changes and the store keeps its
  length.
\<close>

theorem processMatch_elo_update:
  "processMatch (newMatch p1 p2 1 k) store =
      invoke p2 (updateRating (rating (store ! p2) + k * (0 -
           calculateExpectedScore (rating (store ! p2)) (rating (store ! p1)))))
        (invoke p1 (updateRating (rating (store ! p1) + k * (1 -
             calculateExpectedScore (rating (store ! p1)) (rating (store ! p2)))))
          (invoke p2 recordLoss (invoke p1 recordWin store)))
   \<and> processMatch (newMatch p1 p2 (- 1) k) store =
      invoke p2 (updateRating (rating (store ! p2) + k * (1 -
           calculateExpectedScore (rating (store ! p2)) (rating (store ! p1)))))
        (invoke p1 (updateRating (rating (store ! p1) + k * (0 -
             calculateExpectedScore (rating (store ! p1)) (rating (store ! p2)))))
          (invoke p2 recordWin (invoke p1 recordLoss store)))
   \<and> processMatch (newMatch p1 p2 0 k) store =
      invoke p2 (updateRating (rating (store ! p2) + k * (1 / 2 -
           calculateExpectedScore (rating (store ! p2)) (rating (store ! p1)))))
        (invoke p1 (updateRating (rating (store ! p1) + k * (1 / 2 -
             calculateExpectedScore (rating (store ! p1)) (rating (store ! p2)))))
          (invoke p2 recordDraw (invoke p1 recordDraw store)))
   \<and> (p1 \<noteq> p2 \<and> p1 < length store \<and> p2 < length store \<longrightarrow>
       (processMatch (newMatch p1 p2 1 k) store ! p1 =
          updateRating (rating (store ! p1) + k * (1 -
              calculateExpectedScore (rating (store ! p1)) (rating (store ! p2))))
            (recordWin (store ! p1))
        \<and> processMatch (newMatch p1 p2 1 k) store ! p2 =
          updateRating (rating (store ! p2) + k * (0 -
              calculateExpectedScore (rating (store ! p2)) (rating (store ! p1))))
            (recordLoss (store ! p2)))
       \<and> (processMatch (newMatch p1 p2 (- 1) k) store ! p1 =
          updateRating (rating (store ! p1) + k * (0 -
              calculateExpectedScore (rating (store ! p1)) (rating (store ! p2))))
            (recordLoss (store ! p1))
        \<and> processMatch (newMatch p1 p2 (- 1) k) store ! p2 =
          updateRating (rating (store ! p2) + k * (1 -
              calculateExpectedScore (rating (store ! p2)) (rating (store ! p1))))
            (recordWin (store ! p2)))
       \<and> (processMatch (newMatch p1 p2 0 k) store ! p1 =
          updateRating (rating (store ! p1) + k * (1 / 2 -
              calculateExpectedScore (rating (store ! p1)) (rating (store ! p2))))
            (recordDraw (store ! p1))
        \<and> processMatch (newMatch p1 p2 0 k) store ! p2 =
          updateRating (rating (store ! p2) + k * (1 / 2 -
              calculateExpectedScore (rating (store ! p2)) (rating (store ! p1))))
            (recordDraw (store ! p2)))
       \<and> (\<forall>res q. q < length store \<and> q \<noteq> p1 \<and> q \<noteq> p2 \<longrightarrow>
             processMatch (newMatch p1 p2 res k) store ! q = store ! q)
       \<and> (\<forall>res. length (processMatch (newMatch p1 p2 res k) store) = length store))"
proof -
  have m: "player1 (newMatch p1 p2 res k) = p1" "player2 (newMatch p1 p2 res k) = p2"
    "result (newMatch p1 p2 res k) = res" "kFactor (newMatch p1 p2 res k) = k" for res
    by (simp_all add: newMatch_def)
  have ops: "processMatch (newMatch p1 p2 1 k) store =
      invoke p2 (updateRating (rating (store ! p2) + k * (0 -
           calculateExpectedScore (rating (store ! p2)) (rating (store ! p1)))))
        (invoke p1 (updateRating (rating (store ! p1) + k * (1 -
             calculateExpectedScore (rating (store ! p1)) (rating (store ! p2)))))
          (invoke p2 recordLoss (invoke p1 recordWin store)))"
    "processMatch (newMatch p1 p2 (- 1) k) store =
      invoke p2 (updateRating (rating (store ! p2) + k * (1 -
           calculateExpectedScore (rating (store ! p2)) (rating (store ! p1)))))
        (invoke p1 (updateRating (rating (store ! p1) + k * (0 -
             calculateExpectedScore (rating (store ! p1)) (rating (store ! p2)))))
          (invoke p2 recordWin (invoke p1 recordLoss store)))"
    "processMatch (newMatch p1 p2 0 k) store =
      invoke p2 (updateRating (rating (store ! p2) + k * (1 / 2 -
           calculateExpectedScore (rating (store ! p2)) (rating (store ! p1)))))
        (invoke p1 (updateRating (rating (store ! p1) + k * (1 / 2 -
             calculateExpectedScore (rating (store ! p1)) (rating (store ! p2)))))
          (invoke p2 recordDraw (invoke p1 recordDraw store)))"
    by (simp_all add: processMatch_def Let_def m getRating_def)
  have post: "(processMatch (newMatch p1 p2 1 k) store ! p1 =
          updateRating (rating (store ! p1) + k * (1 -
              calculateExpectedScore (rating (store ! p1)) (rating (store ! p2))))
            (recordWin (store ! p1))
        \<and> processMatch (newMatch p1 p2 1 k) store ! p2 =
          updateRating (rating (store ! p2) + k * (0 -
              calculateExpectedScore (rating (store ! p2)) (rating (store ! p1))))
            (recordLoss (store ! p2)))
       \<and> (processMatch (newMatch p1 p2 (- 1) k) store ! p1 =
          updateRating (rating (store ! p1) + k * (0 -
              calculateExpectedScore (rating (store ! p1)) (rating (store ! p2))))
            (recordLoss (store ! p1))
        \<and> processMatch (newMatch p1 p2 (- 1) k) store ! p2 =
          updateRating (rating (store ! p2) + k * (1 -
              calculateExpectedScore (rating (store ! p2)) (rating (store ! p1))))
            (recordWin (store ! p2)))
       \<and> (processMatch (newMatch p1 p2 0 k) store ! p1 =
          updateRating (rating (store ! p1) + k * (1 / 2 -
              calculateExpectedScore (rating (store ! p1)) (rating (store ! p2))))
            (recordDraw (store ! p1))
        \<and> processMatch (newMatch p1 p2 0 k) store ! p2 =
          updateRating (rating (store ! p2) + k * (1 / 2 -
              calculateExpectedScore (rating (store ! p2)) (rating (store ! p1))))
            (recordDraw (store ! p2)))
       \<and> (\<forall>res q. q < length store \<and> q \<noteq> p1 \<and> q \<noteq> p2 \<longrightarrow>
             processMatch (newMatch p1 p2 res k) store ! q = store ! q)
       \<and> (\<forall>res. length (processMatch (newMatch p1 p2 res k) store) = length store)"
    if d: "p1 \<noteq> p2" "p1 < length store" "p2 < length store"
  proof -
    have a: "processMatch (newMatch p1 p2 res k) store ! p1 =
       updateRating (rating (store ! p1) + k *
          ((if res = 1 then 1 else if res = - 1 then 0 else 1 / 2)
            - calculateExpectedScore (rating (store ! p1)) (rating (store ! p2))))
         ((if res = 1 then recordWin else if res = - 1 then recordLoss else recordDraw)
            (store ! p1))" for res
      using processMatch_player1 [of "newMatch p1 p2 res k" store] d by (simp add: m)
    have b: "processMatch (newMatch p1 p2 res k) store ! p2 =
       updateRating (rating (store ! p2) + k *
          ((if res = 1 then 0 else if res = - 1 then 1 else 1 / 2)
            - calculateExpectedScore (rating (store ! p2)) (rating (store ! p1))))
         ((if res = 1 then recordLoss else if res = - 1 then recordWin else recordDraw)
            (store ! p2))" for res
      using processMatch_player2 [of "newMatch p1 p2 res k" store] d by (simp add: m)
    have c: "q < length store \<and> q \<noteq> p1 \<and> q \<noteq> p2 \<longrightarrow>
            processMatch (newMatch p1 p2 res k) store ! q = store ! q" for res q
      using processMatch_other [of q "newMatch p1 p2 res k" store] by (simp add: m)
    show ?thesis
      using a [of 1] a [of "- 1"] a [of 0] b [of 1] b [of "- 1"] b [of 0] c
      by simp
  qed
  from ops post show ?thesis by blast
qed

theorem processMatch_elo_update_witness:
  "(0::nat) \<noteq> 1 \<and> 0 < length [newPlayer ''Alice'' 1200, newPlayer ''Bob'' 1200]
   \<and> 1 < length [newPlayer ''Alice'' 1200, newPlayer ''Bob'' 1200]
   \<and> processMatch (newMatch 0 1 1 32) [newPlayer ''Alice'' 1200, newPlayer ''Bob'' 1200] ! 0
       = \<lparr>name = ''Alice'', rating = 1216, gamesPlayed = 1, wins = 1, losses = 0, draws = 0\<rparr>
   \<and> processMatch (newMatch 0 1 1 32) [newPlayer ''Alice'' 1200, newPlayer ''Bob'' 1200] ! 1
       = \<lparr>name = ''Bob'', rating = 1184, gamesPlayed = 1, wins = 0, losses = 1, draws = 0\<rparr>"
proof -
  have h: "(0::nat) \<noteq> 1 \<and> 0 < length [newPlayer ''Alice'' 1200, newPlayer ''Bob'' 1200]
      \<and> 1 < length [newPlayer ''Alice'' 1200, newPlayer ''Bob'' 1200]"
    by simp
  note post = processMatch_elo_update [of 0 1 32 "[newPlayer ''Alice'' 1200, newPlayer ''Bob'' 1200]",
      THEN conjunct2, THEN conjunct2, THEN conjunct2, THEN mp, OF h, THEN conjunct1]
  show ?thesis
    using post
    by (simp add: newPlayer_def calculateExpectedScore_alt updateRating_def recordWin_def
        recordLoss_def Let_def)
qed

lemma newMatch_sel:
  "player1 (newMatch p1 p2 res k) = p1" "player2 (newMatch p1 p2 res k) = p2"
  "result (newMatch p1 p2 res k) = res" "kFactor (newMatch p1 p2 res k) = k"
  by (simp_all add: newMatch_def)











subsection \<open>RankingSystem\<close>

lemma counters_simps:
  "gamesPlayed (updateRating v p) = gamesPlayed p"
  "gamesPlayed (recordWin p) = gamesPlayed p + 1"
  "gamesPlayed (recordLoss p) = gamesPlayed p + 1"
  "gamesPlayed (recordDraw p) = gamesPlayed p + 1"
  by (simp_all add: updateRating_def recordWin_def recordLoss_def recordDraw_def Let_def)

lemma name_simps:
  "name (updateRating v p) = name p"
  "name (recordWin p) = name p" "name (recordLoss p) = name p" "name (recordDraw p) = name p"
  by (simp_all add: updateRating_def recordWin_def recordLoss_def recordDraw_def Let_def)

lemma name_invoke:
  "(\<And>p. name (f p) = name p) \<Longrightarrow> map name (invoke r f s) = map name s"
  by (cases "r < length s") (simp_all add: invoke_def map_update list_update_same_conv list_update_beyond)

lemma map_name_processMatch: "map name (processMatch m s) = map name s"
  by (simp add: processMatch_def Let_def name_invoke name_simps split: prod.splits)

lemma processMatch_games1:
  assumes "player1 m < length s" "player2 m < length s"
  shows "gamesPlayed (s ! player1 m) < gamesPlayed (processMatch m s ! player1 m)"
proof (cases "player1 m = player2 m")
  case True
  then show ?thesis
    using processMatch_same [of m s] assms by (simp add: counters_simps)
next
  case False
  then show ?thesis
    using processMatch_player1 [of m s] assms by (simp add: counters_simps)
qed

lemma processMatch_games2:
  assumes "player1 m < length s" "player2 m < length s"
  shows "gamesPlayed (s ! player2 m) < gamesPlayed (processMatch m s ! player2 m)"
proof (cases "player1 m = player2 m")
  case True
  then show ?thesis
    using processMatch_same [of m s] assms by (simp add: counters_simps)
next
  case False
  then show ?thesis
    using processMatch_player2 [of m s] assms by (simp add: counters_simps)
qed

text \<open>
  C5. When either name is not found, \<open>recordMatch\<close> returns the players exactly as they
  were and reports the missing name. When both are found it runs \<open>processMatch\<close> on the
  two positions: both players have more games played than before, and the names in the
  RankingSystem are the same in the same order.
\<close>

theorem recordMatch_all_or_nothing:
  "(findPlayer players name1 = None \<or> findPlayer players name2 = None \<longrightarrow>
      snd (recordMatch name1 name2 res players) = players
      \<and> fst (recordMatch name1 name2 res players) \<in> {NotFound name1, NotFound name2})
   \<and> (\<forall>r1 r2. findPlayer players name1 = Some r1 \<and> findPlayer players name2 = Some r2 \<longrightarrow>
        recordMatch name1 name2 res players
          = (MatchRecorded, processMatch (newMatch r1 r2 res 32) players)
        \<and> gamesPlayed (players ! r1) < gamesPlayed (snd (recordMatch name1 name2 res players) ! r1)
        \<and> gamesPlayed (players ! r2) < gamesPlayed (snd (recordMatch name1 name2 res players) ! r2)
        \<and> map name (snd (recordMatch name1 name2 res players)) = map name players)"
proof -
  have "gamesPlayed (players ! r1) < gamesPlayed (processMatch (newMatch r1 r2 res 32) players ! r1)
      \<and> gamesPlayed (players ! r2) < gamesPlayed (processMatch (newMatch r1 r2 res 32) players ! r2)"
    if "findPlayer players name1 = Some r1" "findPlayer players name2 = Some r2" for r1 r2
    using processMatch_games1 [of "newMatch r1 r2 res 32" players]
      processMatch_games2 [of "newMatch r1 r2 res 32" players]
      findPlayer_Some [OF that(1)] findPlayer_Some [OF that(2)]
    by (simp add: newMatch_sel)
  then show ?thesis
    by (auto simp add: recordMatch_def Let_def map_name_processMatch split: option.splits)
qed

theorem recordMatch_all_or_nothing_witness:
  "findPlayer [newPlayer ''Alice'' 1200] ''Bob'' = None
   \<and> snd (recordMatch ''Alice'' ''Bob'' 1 [newPlayer ''Alice'' 1200]) = [newPlayer ''Alice'' 1200]
   \<and> findPlayer [newPlayer ''Alice'' 1200, newPlayer ''Bob'' 1200] ''Alice'' = Some 0
   \<and> findPlayer [newPlayer ''Alice'' 1200, newPlayer ''Bob'' 1200] ''Bob'' = Some 1
   \<and> fst (recordMatch ''Alice'' ''Bob'' 1 [newPlayer ''Alice'' 1200, newPlayer ''Bob'' 1200])
       = MatchRecorded"
  using recordMatch_all_or_nothing [of "[newPlayer ''Alice'' 1200]" "''Alice''" "''Bob''" 1]
    recordMatch_all_or_nothing [of "[newPlayer ''Alice'' 1200, newPlayer ''Bob'' 1200]"
      "''Alice''" "''Bob''" 1]
  by (simp add: getName_def newPlayer_simps)

text \<open>
  C10. \<open>recordMatch n n res\<close> for a registered name is carried out with both references on
  that player. For every K-factor the player ends with two more games: a win and a loss for
  results 1 and -1, two draws for result 0. The rating is the second \<open>updateRating\<close>
  value, \<open>r + k * (actual2 - 1/2)\<close>; through \<open>recordMatch\<close>, result 1 lowers the
  rating by 16.
\<close>

theorem recordMatch_self:
  assumes "findPlayer players n = Some i"
  shows "recordMatch n n res players = (MatchRecorded, processMatch (newMatch i i res 32) players)
   \<and> processMatch (newMatch i i 1 k) players =
       players[i := \<lparr>name = name (players ! i), rating = rating (players ! i) + k * (0 - 1 / 2),
          gamesPlayed = gamesPlayed (players ! i) + 2, wins = wins (players ! i) + 1,
          losses = losses (players ! i) + 1, draws = draws (players ! i)\<rparr>]
   \<and> processMatch (newMatch i i (- 1) k) players =
       players[i := \<lparr>name = name (players ! i), rating = rating (players ! i) + k * (1 - 1 / 2),
          gamesPlayed = gamesPlayed (players ! i) + 2, wins = wins (players ! i) + 1,
          losses = losses (players ! i) + 1, draws = draws (players ! i)\<rparr>]
   \<and> processMatch (newMatch i i 0 k) players =
       players[i := \<lparr>name = name (players ! i), rating = rating (players ! i) + k * (1 / 2 - 1 / 2),
          gamesPlayed = gamesPlayed (players ! i) + 2, wins = wins (players ! i),
          losses = losses (players ! i), draws = draws (players ! i) + 2\<rparr>]
   \<and> rating (snd (recordMatch n n 1 players) ! i) = rating (players ! i) - 32 / 2"
proof -
  have i: "i < length players" using findPlayer_Some [OF assms] by simp
  have rm: "recordMatch n n res players
      = (MatchRecorded, processMatch (newMatch i i res 32) players)" for res
    using assms by (simp add: recordMatch_def)
  have win: "processMatch (newMatch i i 1 k) players =
       players[i := \<lparr>name = name (players ! i), rating = rating (players ! i) + k * (0 - 1 / 2),
          gamesPlayed = gamesPlayed (players ! i) + 2, wins = wins (players ! i) + 1,
          losses = losses (players ! i) + 1, draws = draws (players ! i)\<rparr>]" for k
    using i by (cases "players ! i") (simp add: processMatch_def newMatch_def invoke_def getRating_def Let_def
        calculateExpectedScore_alt updateRating_def recordWin_def recordLoss_def add.commute)
  have loss: "processMatch (newMatch i i (- 1) k) players =
       players[i := \<lparr>name = name (players ! i), rating = rating (players ! i) + k * (1 - 1 / 2),
          gamesPlayed = gamesPlayed (players ! i) + 2, wins = wins (players ! i) + 1,
          losses = losses (players ! i) + 1, draws = draws (players ! i)\<rparr>]"
    using i by (cases "players ! i") (simp add: processMatch_def newMatch_def invoke_def getRating_def Let_def
        calculateExpectedScore_alt updateRating_def recordWin_def recordLoss_def add.commute)
  have draw: "processMatch (newMatch i i 0 k) players =
       players[i := \<lparr>name = name (players ! i), rating = rating (players ! i) + k * (1 / 2 - 1 / 2),
          gamesPlayed = gamesPlayed (players ! i) + 2, wins = wins (players ! i),
          losses = losses (players ! i), draws = draws (players ! i) + 2\<rparr>]"
    using i by (cases "players ! i") (simp add: processMatch_def newMatch_def invoke_def getRating_def Let_def
        calculateExpectedScore_alt updateRating_def recordDraw_def add.commute)
  have "rating (snd (recordMatch n n 1 players) ! i) = rating (players ! i) - 32 / 2"
    using i by (simp add: rm win)
  with rm win loss draw show ?thesis by blast
qed

theorem recordMatch_self_witness:
  "findPlayer [newPlayer ''Alice'' 1200] ''Alice'' = Some 0
   \<and> snd (recordMatch ''Alice'' ''Alice'' 1 [newPlayer ''Alice'' 1200])
       = [\<lparr>name = ''Alice'', rating = 1184, gamesPlayed = 2, wins = 1, losses = 1, draws = 0\<rparr>]"
proof -
  have h: "findPlayer [newPlayer ''Alice'' 1200] ''Alice'' = Some 0"
    by (simp add: getName_def newPlayer_simps)
  show ?thesis using h recordMatch_self [OF h, of 1 32]
    by (simp add: newPlayer_def Let_def)
qed


subsection \<open>Persistence\<close>

lemma is_digit_not_other:
  assumes "is_digit c"
  shows "c \<noteq> newline" "c \<noteq> comma" "\<not> is_space c" "c \<noteq> CHR ''-''" "c \<noteq> CHR ''+''"
  using assms by (auto simp add: is_digit_def newline_def comma_def is_space_def)

lemma digit_char_props:
  assumes "d < 10"
  shows "is_digit (digit_char d)" "digit_val (digit_char d) = d"
  using assms by (simp_all add: is_digit_def digit_char_def digit_val_def)

lemma put_nat_digits: "c \<in> set (put_nat n) \<Longrightarrow> is_digit c"
proof (induction n arbitrary: c rule: put_nat.induct)
  case (1 n)
  show ?case
  proof (cases "n < 10")
    case True
    with "1.prems" show ?thesis
      by (subst (asm) put_nat.simps) (simp add: digit_char_props)
  next
    case False
    with "1.prems" have "c \<in> set (put_nat (n div 10)) \<or> c = digit_char (n mod 10)"
      by (subst (asm) put_nat.simps) auto
    then show ?thesis
      using "1.IH" [OF False] by (auto simp add: digit_char_props)
  qed
qed

lemma put_nat_not_Nil: "put_nat n \<noteq> []"
  by (subst put_nat.simps) simp

lemma digits_value_snoc: "digits_value (ds @ [c]) = 10 * digits_value ds + digit_val c"
  by (simp add: digits_value_def)

lemma digits_value_put_nat: "digits_value (put_nat n) = n"
proof (induction n rule: put_nat.induct)
  case (1 n)
  show ?case
  proof (cases "n < 10")
    case True
    then show ?thesis
      by (subst put_nat.simps) (simp add: digits_value_def digit_char_props)
  next
    case False
    then have "digits_value (put_nat n) = 10 * digits_value (put_nat (n div 10)) + n mod 10"
      by (subst put_nat.simps) (simp add: digits_value_snoc digit_char_props)
    with "1.IH" [OF False] show ?thesis by simp
  qed
qed

lemma get_nat_put_nat:
  assumes "rest = [] \<or> \<not> is_digit (hd rest)"
  shows "get_nat (put_nat n @ rest) = Some (n, rest)"
proof -
  have t: "takeWhile is_digit rest = []" and d: "dropWhile is_digit rest = rest"
    using assms by (cases rest; auto)+
  have "takeWhile is_digit (put_nat n @ rest) = put_nat n"
    using t by (simp add: put_nat_digits)
  moreover have "dropWhile is_digit (put_nat n @ rest) = rest"
    using d by (simp add: put_nat_digits)
  ultimately show ?thesis
    by (simp add: get_nat_def put_nat_not_Nil digits_value_put_nat)
qed

lemma get_int_put_int:
  assumes "rest = [] \<or> \<not> is_digit (hd rest)" and "in_int_range i"
  shows "get_int (put_int i @ rest) = Some (i, rest)"
proof (cases "i < 0")
  case True
  have "\<not> is_space (CHR ''-'')" by (simp add: is_space_def)
  then have "dropWhile is_space (put_int i @ rest) = CHR ''-'' # (put_nat (nat (- i)) @ rest)"
    using True by (simp add: put_int_def)
  then show ?thesis
    using True assms by (simp add: get_int_def get_nat_put_nat)
next
  case False
  obtain c cs where c: "put_nat (nat i) = c # cs"
    using put_nat_not_Nil [of "nat i"] by (cases "put_nat (nat i)") auto
  then have dig: "is_digit c"
    using put_nat_digits [of c "nat i"] by simp
  have "dropWhile is_space (put_int i @ rest) = c # (cs @ rest)"
    using False c is_digit_not_other(3) [OF dig] by (simp add: put_int_def)
  moreover have "get_nat (c # (cs @ rest)) = Some (nat i, rest)"
    using get_nat_put_nat [OF assms(1), of "nat i"] c by simp
  ultimately show ?thesis
    using False assms(2) is_digit_not_other(4,5) [OF dig] by (simp add: get_int_def)
qed

lemma newline_notin_put_int: "newline \<notin> set (put_int i)"
  using put_nat_digits is_digit_not_other(1)
  by (auto simp add: put_int_def newline_def)

lemma getlines_line:
  "newline \<notin> set body \<Longrightarrow> getlines line (body @ newline # rest) = (line @ body) # getlines [] rest"
  by (induction body arbitrary: line) auto

lemma getlines_concat:
  assumes "\<forall>p \<in> set ps. newline \<notin> set (f p)"
  shows "getlines [] (concat (map (\<lambda>p. f p @ [newline]) ps)) = map f ps"
  using assms
proof (induction ps)
  case Nil
  then show ?case by simp
next
  case (Cons p ps)
  then have "getlines [] (f p @ newline # concat (map (\<lambda>p. f p @ [newline]) ps))
      = f p # map f ps"
    by (simp add: getlines_line)
  then show ?case by simp
qed

lemma recordWin_funpow:
  "(recordWin ^^ n) p = p\<lparr>gamesPlayed := gamesPlayed p + int n, wins := wins p + int n\<rparr>"
  by (induction n) (simp_all add: recordWin_def Let_def algebra_simps)

lemma recordLoss_funpow:
  "(recordLoss ^^ n) p = p\<lparr>gamesPlayed := gamesPlayed p + int n, losses := losses p + int n\<rparr>"
  by (induction n) (simp_all add: recordLoss_def Let_def algebra_simps)

lemma recordDraw_funpow:
  "(recordDraw ^^ n) p = p\<lparr>gamesPlayed := gamesPlayed p + int n, draws := draws p + int n\<rparr>"
  by (induction n) (simp_all add: recordDraw_def Let_def algebra_simps)

lemma replay_counters:
  assumes "0 \<le> w" "0 \<le> l" "0 \<le> d"
  shows "(recordDraw ^^ nat d) ((recordLoss ^^ nat l) ((recordWin ^^ nat w) (newPlayer n r)))
     = \<lparr>name = n, rating = (if r < 0 then 0 else r), gamesPlayed = w + l + d,
         wins = w, losses = l, draws = d\<rparr>"
  using assms
  by (simp add: recordWin_funpow recordLoss_funpow recordDraw_funpow newPlayer_def Let_def)

lemma comma_not_digit: "\<not> is_digit comma"
  by (simp add: is_digit_def comma_def)

lemma parseLine_playerLine:
  assumes "reloadable pd gd p"
  shows "parseLine gd (getName p @ [comma] @ pd (getRating p) @ [comma]
       @ put_int (getGamesPlayed p) @ [comma] @ put_int (getWins p) @ [comma]
       @ put_int (getLosses p) @ [comma] @ put_int (getDraws p)) = Some p"
proof -
  from assms have nm: "comma \<notin> set (name p)"
    and rt: "0 \<le> rating p"
    and gd: "\<And>rest. gd (pd (rating p) @ comma # rest) = Some (rating p, comma # rest)"
    and cs: "0 \<le> wins p" "0 \<le> losses p" "0 \<le> draws p"
      "gamesPlayed p = wins p + losses p + draws p" "gamesPlayed p \<le> 2147483647"
    by (simp_all add: reloadable_def counters_ok_def)
  have rng: "in_int_range (gamesPlayed p)" "in_int_range (wins p)" "in_int_range (losses p)"
    "in_int_range (draws p)"
    using cs by (simp_all add: in_int_range_def)
  have gi: "get_int (put_int i @ comma # rest) = Some (i, comma # rest)" if "in_int_range i"
    for i rest
    using get_int_put_int [of "comma # rest" i] that comma_not_digit by simp
  have gl: "get_int (put_int i) = Some (i, [])" if "in_int_range i" for i
    using get_int_put_int [of "[]" i] that by simp
  have tk: "takeWhile (\<lambda>c. c \<noteq> comma) (name p @ comma # rest) = name p" for rest
    using nm by (auto simp add: takeWhile_tail)
  have dr: "dropWhile (\<lambda>c. c \<noteq> comma) (name p @ comma # rest) = comma # rest" for rest
    using nm by (auto simp add: dropWhile_append3)
  have "parseLine gd (name p @ comma # pd (rating p) @ comma # put_int (gamesPlayed p)
      @ comma # put_int (wins p) @ comma # put_int (losses p) @ comma # put_int (draws p))
    = Some ((recordDraw ^^ nat (draws p)) ((recordLoss ^^ nat (losses p))
                   ((recordWin ^^ nat (wins p)) (newPlayer (name p) (rating p)))))"
    unfolding parseLine_def Let_def tk dr
    by (simp add: gd gi gl rng)
  also have "\<dots> = Some p"
    using replay_counters [OF cs(1,2,3), of "name p" "rating p"] rt cs(4) by simp
  finally show ?thesis
    by (simp add: getName_def getRating_def getGamesPlayed_def getWins_def getLosses_def
        getDraws_def)
qed

lemma loadLines_map:
  assumes "\<forall>p \<in> set ps. parseLine gd (f p) = Some p"
  shows "loadLines gd (map f ps) acc = Inr (acc @ ps)"
  using assms by (induction ps arbitrary: acc) simp_all

text \<open>
  C7, as amended. When every player of a RankingSystem is \<open>reloadable\<close> (a name without
  comma and newline, a rating that is not negative and that its text gives back, counters
  in the range of an \<open>int\<close>), loading the text that \<open>saveToFile\<close> wrote, into any
  RankingSystem, yields exactly the saved players in their order: the same names, ratings,
  games played, wins, losses and draws. A negative rating does not come back: the
  constructor that \<open>loadFromFile\<close> calls replaces it by 0, as the counterexample shows on a
  RankingSystem built with \<open>addPlayer\<close> and \<open>recordMatch\<close>.
\<close>

theorem save_then_load_roundtrip:
  assumes "\<forall>p \<in> set players. reloadable put_double get_double p"
  shows "loadFromFile get_double (snd (saveToFile put_double True players)) others
           = Inr (Loaded (length players), players)"
proof -
  let ?body = "\<lambda>p. getName p @ [comma] @ put_double (getRating p) @ [comma]
       @ put_int (getGamesPlayed p) @ [comma] @ put_int (getWins p) @ [comma]
       @ put_int (getLosses p) @ [comma] @ put_int (getDraws p)"
  have pl: "playerLine put_double = (\<lambda>p. ?body p @ [newline])"
    by (rule ext) (simp add: playerLine_def)
  have nl: "\<forall>p \<in> set players. newline \<notin> set (?body p)"
  proof
    fix p assume "p \<in> set players"
    with assms have "reloadable put_double get_double p" by blast
    then have "newline \<notin> set (name p)" "newline \<notin> set (put_double (rating p))"
      by (simp_all add: reloadable_def)
    moreover have "newline \<noteq> comma" by (simp add: newline_def comma_def)
    ultimately show "newline \<notin> set (?body p)"
      by (simp add: newline_notin_put_int getName_def getRating_def)
  qed
  have "getlines [] (concat (map (playerLine put_double) players)) = map ?body players"
    unfolding pl using nl by (rule getlines_concat)
  moreover have "loadLines get_double (map ?body players) [] = Inr ([] @ players)"
    using assms by (intro loadLines_map ballI parseLine_playerLine) blast
  ultimately show ?thesis
    by (simp add: loadFromFile_def saveToFile_def)
qed

lemma get_whole_put_whole:
  assumes "in_int_range i"
  shows "get_whole (put_whole (of_int i) @ comma # rest) = Some (of_int i, comma # rest)"
  using get_int_put_int [of "comma # rest" i] assms comma_not_digit
  by (simp add: get_whole_def put_whole_def)

lemma reloadable_whole:
  assumes "comma \<notin> set (name p)" "newline \<notin> set (name p)" "rating p = of_int i" "0 \<le> i"
    "i \<le> 2147483647" "0 \<le> wins p" "0 \<le> losses p" "0 \<le> draws p"
    "gamesPlayed p = wins p + losses p + draws p" "gamesPlayed p \<le> 2147483647"
  shows "reloadable put_whole get_whole p"
proof -
  have "in_int_range i" using assms(4,5) by (simp add: in_int_range_def)
  then have "get_whole (put_whole (rating p) @ comma # rest) = Some (rating p, comma # rest)"
    for rest
    unfolding assms(3) by (rule get_whole_put_whole)
  moreover have "newline \<notin> set (put_whole (rating p))"
    by (simp add: put_whole_def newline_notin_put_int)
  ultimately show ?thesis using assms by (simp add: reloadable_def counters_ok_def)
qed

theorem save_then_load_roundtrip_witness:
  "reloadable put_whole get_whole
      \<lparr>name = ''Alice'', rating = 1216, gamesPlayed = 1, wins = 1, losses = 0, draws = 0\<rparr>
   \<and> reloadable put_whole get_whole
      \<lparr>name = ''Bob'', rating = 1184, gamesPlayed = 1, wins = 0, losses = 1, draws = 0\<rparr>
   \<and> loadFromFile get_whole (snd (saveToFile put_whole True
        [\<lparr>name = ''Alice'', rating = 1216, gamesPlayed = 1, wins = 1, losses = 0, draws = 0\<rparr>,
         \<lparr>name = ''Bob'', rating = 1184, gamesPlayed = 1, wins = 0, losses = 1, draws = 0\<rparr>])) []
     = Inr (Loaded 2,
        [\<lparr>name = ''Alice'', rating = 1216, gamesPlayed = 1, wins = 1, losses = 0, draws = 0\<rparr>,
         \<lparr>name = ''Bob'', rating = 1184, gamesPlayed = 1, wins = 0, losses = 1, draws = 0\<rparr>])"
proof -
  have a: "reloadable put_whole get_whole
      \<lparr>name = ''Alice'', rating = 1216, gamesPlayed = 1, wins = 1, losses = 0, draws = 0\<rparr>"
    by (rule reloadable_whole [where i = 1216]) (simp_all add: comma_def newline_def)
  have b: "reloadable put_whole get_whole
      \<lparr>name = ''Bob'', rating = 1184, gamesPlayed = 1, wins = 0, losses = 1, draws = 0\<rparr>"
    by (rule reloadable_whole [where i = 1184]) (simp_all add: comma_def newline_def)
  show ?thesis
    using a b save_then_load_roundtrip [of
        "[\<lparr>name = ''Alice'', rating = 1216, gamesPlayed = 1, wins = 1, losses = 0, draws = 0\<rparr>,
         \<lparr>name = ''Bob'', rating = 1184, gamesPlayed = 1, wins = 0, losses = 1, draws = 0\<rparr>]"
        put_whole get_whole "[]"]
    by simp
qed

lemma reached_negative:
  "snd (recordMatch ''A'' ''B'' (- 1) (snd (addPlayer ''B'' 0 (snd (addPlayer ''A'' 0 [])))))
     = [\<lparr>name = ''A'', rating = - 16, gamesPlayed = 1, wins = 0, losses = 1, draws = 0\<rparr>,
        \<lparr>name = ''B'', rating = 16, gamesPlayed = 1, wins = 1, losses = 0, draws = 0\<rparr>]"
  by (simp add: recordMatch_def addPlayer_def getName_def newPlayer_def processMatch_def
      newMatch_def invoke_def getRating_def calculateExpectedScore_alt updateRating_def
      recordWin_def recordLoss_def Let_def)

lemma saved_negative:
  "snd (saveToFile put_whole True
       [\<lparr>name = ''A'', rating = - 16, gamesPlayed = 1, wins = 0, losses = 1, draws = 0\<rparr>,
        \<lparr>name = ''B'', rating = 16, gamesPlayed = 1, wins = 1, losses = 0, draws = 0\<rparr>])
    = Some (''A,-16,1,0,1,0'' @ [newline] @ ''B,16,1,1,0,0'' @ [newline])"
  by (simp add: saveToFile_def playerLine_def put_whole_def put_int_def put_nat.simps
      digit_char_def char_of_def bit_Suc_0_iff getName_def getRating_def getGamesPlayed_def getWins_def
      getLosses_def getDraws_def comma_def)

lemma loaded_negative:
  "loadFromFile get_whole (Some (''A,-16,1,0,1,0'' @ [newline] @ ''B,16,1,1,0,0'' @ [newline])) []
    = Inr (Loaded 2,
       [\<lparr>name = ''A'', rating = 0, gamesPlayed = 1, wins = 0, losses = 1, draws = 0\<rparr>,
        \<lparr>name = ''B'', rating = 16, gamesPlayed = 1, wins = 1, losses = 0, draws = 0\<rparr>])"
  by (simp add: loadFromFile_def newline_def parseLine_def comma_def get_whole_def get_int_def
      get_nat_def is_space_def is_digit_def digits_value_def digit_val_def in_int_range_def
      newPlayer_def recordWin_def recordLoss_def Let_def)

theorem save_then_load_roundtrip_counterexample:
  "rating (snd (recordMatch ''A'' ''B'' (- 1)
       (snd (addPlayer ''B'' 0 (snd (addPlayer ''A'' 0 []))))) ! 0) = - 16
   \<and> loadFromFile get_whole (snd (saveToFile put_whole True
         (snd (recordMatch ''A'' ''B'' (- 1)
            (snd (addPlayer ''B'' 0 (snd (addPlayer ''A'' 0 [])))))))) []
     = Inr (Loaded 2,
       [\<lparr>name = ''A'', rating = 0, gamesPlayed = 1, wins = 0, losses = 1, draws = 0\<rparr>,
        \<lparr>name = ''B'', rating = 16, gamesPlayed = 1, wins = 1, losses = 0, draws = 0\<rparr>])"
  unfolding reached_negative saved_negative loaded_negative by simp

lemma loadFromFile_unopened:
  "loadFromFile get_double None players = Inr (NoDataFile, players)"
  by (simp add: loadFromFile_def)

text \<open>
  C8. The claim, like the comment on \<open>loadFromFile\<close> in RankingSystem.h, has a
  RankingSystem empty after \<open>loadFromFile\<close> on a file that cannot be opened. The function
  reports the missing file and no fault, but it returns before it clears the players: a
  RankingSystem that holds Alice still holds her afterwards, and its player count is 1.
\<close>

theorem loadFromFile_missing_file_keeps_players:
  "loadFromFile get_whole None (snd (addPlayer ''Alice'' 1200 []))
     = Inr (NoDataFile, [newPlayer ''Alice'' 1200])
   \<and> getPlayerCount (snd (projr (loadFromFile get_whole None
         (snd (addPlayer ''Alice'' 1200 []))))) = 1"
  by (simp add: loadFromFile_unopened getPlayerCount_def addPlayer_def)

text \<open>
  The counters of \<open>reloadable\<close> are no restriction: \<open>addPlayer\<close>, \<open>recordMatch\<close> and
  \<open>loadFromFile\<close> keep \<open>counters_ok\<close> for every player.
\<close>

lemma invoke_preserves:
  assumes "list_all P s" and "\<And>p. P p \<Longrightarrow> P (f p)"
  shows "list_all P (invoke r f s)"
proof (cases "r < length s")
  case True
  with assms(1) have "P (s ! r)" by (simp add: list_all_length)
  then have "P (f (s ! r))" by (rule assms(2))
  with assms(1) True show ?thesis
    unfolding invoke_def list_all_length by (auto simp add: nth_list_update)
next
  case False
  with assms(1) show ?thesis by (simp add: invoke_def list_update_beyond)
qed

lemma counters_ok_ops:
  assumes "counters_ok p"
  shows "counters_ok (recordWin p)" "counters_ok (recordLoss p)" "counters_ok (recordDraw p)"
    "counters_ok (updateRating v p)"
  using assms
  by (simp_all add: counters_ok_def recordWin_def recordLoss_def recordDraw_def
      updateRating_def Let_def)

lemma processMatch_counters_ok:
  assumes "list_all counters_ok s"
  shows "list_all counters_ok (processMatch m s)"
  using assms
  by (simp add: processMatch_def Let_def invoke_preserves counters_ok_ops)

lemma recordMatch_counters_ok:
  "list_all counters_ok players \<Longrightarrow>
   list_all counters_ok (snd (recordMatch name1 name2 res players))"
  by (simp add: recordMatch_def Let_def processMatch_counters_ok split: option.splits)

lemma addPlayer_counters_ok:
  "list_all counters_ok players \<Longrightarrow> list_all counters_ok (snd (addPlayer n r players))"
  by (simp add: addPlayer_def counters_ok_def newPlayer_simps)

lemma parseLine_counters_ok:
  "parseLine gd line = Some p \<Longrightarrow> counters_ok p"
  by (auto simp add: parseLine_def Let_def counters_ok_def recordWin_funpow recordLoss_funpow
      recordDraw_funpow newPlayer_simps split: Option.bind_splits)

lemma loadLines_counters_ok:
  "loadLines gd lines acc = Inr ps \<Longrightarrow> list_all counters_ok acc \<Longrightarrow> list_all counters_ok ps"
proof (induction lines arbitrary: acc)
  case Nil
  then show ?case by simp
next
  case (Cons line lines)
  then obtain p where p: "parseLine gd line = Some p"
    and rest: "loadLines gd lines (acc @ [p]) = Inr ps"
    by (auto split: option.splits)
  from Cons.prems(2) parseLine_counters_ok [OF p] have "list_all counters_ok (acc @ [p])"
    by simp
  with Cons.IH [OF rest] show ?case .
qed

lemma loadFromFile_counters_ok:
  assumes "loadFromFile gd file players = Inr (msg, ps)" and "list_all counters_ok players"
  shows "list_all counters_ok ps"
proof (cases "file")
  case None
  with assms show ?thesis by (simp add: loadFromFile_unopened)
next
  case (Some content)
  with assms(1) have "loadLines gd (getlines [] content) [] = Inr ps"
    by (auto simp add: loadFromFile_def split: sum.splits)
  then show ?thesis using loadLines_counters_ok [of gd "getlines [] content" "[]" ps] by simp
qed

end
